theory Spec2Isabelle
  imports Main
begin

section \<open>The plugin command registry and its safe-command converter\<close>

text \<open>
  A shallow embedding of \<^verbatim>\<open>packages/plugin-ext/src/plugin/command-registry.ts\<close>:
  the class \<^verbatim>\<open>CommandRegistryImpl\<close> (a table of command identifiers and handlers,
  mirrored to a remote side through a proxy) and the class \<^verbatim>\<open>CommandsConverter\<close>
  (numeric handles standing for commands with arguments).

  The two objects are one state value that every method takes and returns. What a
  method sends through \<^verbatim>\<open>this.proxy\<close> is appended to a log. A synchronous
  \<^verbatim>\<open>throw\<close> is the left summand of the method's result, next to the state the
  method had reached; a promise is the value it settles to.
\<close>

subsection \<open>Values\<close>

text \<open>
  A JavaScript value of type \<^verbatim>\<open>any\<close>. Numbers are the integral ones: the handles
  of the converter are counted up from 0 by \<^verbatim>\<open>handle++\<close>. An object that is not
  inspected by the registry is a reference.
\<close>

datatype jsval =
    JSUndefined
  | JSNull
  | JSBoolean bool
  | JSNumber int
  | JSString string
  | JSObject nat

text \<open>What is thrown, or what a promise is rejected with: \<^verbatim>\<open>new Error(message)\<close> or any value.\<close>

datatype thrown = Error string | Thrown jsval

datatype promise = Resolved jsval | Rejected thrown | Pending

text \<open>
  \<^verbatim>\<open>theia.CommandDescription\<close> and \<^verbatim>\<open>theia.Command\<close>, by the fields the file reads:
  \<^verbatim>\<open>id\<close> of a description; \<^verbatim>\<open>command\<close> and \<^verbatim>\<open>arguments\<close> of a command, both optional.
  \<^verbatim>\<open>title\<close> stands for the fields \<^verbatim>\<open>Object.assign\<close> copies without reading.
\<close>

record CommandDescription =
  cmd_id :: string
  label :: "string option"

record Command =
  command :: "string option"
  title :: "string option"
  arguments :: "jsval list option"

text \<open>
  The receiver a handler is applied with (\<^verbatim>\<open>thisArg\<close>): a value, \<^verbatim>\<open>undefined\<close> when it
  is left out, or the converter object, which \<^verbatim>\<open>toSafeCommand\<close> passes as \<^verbatim>\<open>this\<close>.
\<close>

datatype receiver = ThisArg jsval | ThisConverter

text \<open>
  A \<^verbatim>\<open>Handler\<close> is either a function supplied by a plugin, given by the promise it
  returns for a receiver and an argument list (a handler that throws inside the
  \<^verbatim>\<open>async\<close> method \<^verbatim>\<open>executeLocalCommand\<close> rejects that method's promise), or the
  converter's own method \<^verbatim>\<open>executeSafeCommand\<close>, which reads the state when it runs.
\<close>

datatype handler_fn =
    PluginFn "receiver \<Rightarrow> jsval list \<Rightarrow> promise"
  | ExecuteSafeCommand

text \<open>
  The closure \<^verbatim>\<open>(...args) => handler.apply(thisArg, args)\<close> that \<^verbatim>\<open>registerHandler\<close>
  stores: the handler with its receiver.
\<close>

type_synonym bound_handler = "handler_fn \<times> receiver"

text \<open>\<^verbatim>\<open>ArgumentProcessor.processArgument\<close>.\<close>

type_synonym ArgumentProcessor = "jsval \<Rightarrow> jsval"

text \<open>The calls of \<^verbatim>\<open>CommandRegistryMain\<close> that the file makes through \<^verbatim>\<open>this.proxy\<close>.\<close>

datatype proxy_call =
    Proxy_registerCommand CommandDescription
  | Proxy_unregisterCommand string
  | Proxy_registerHandler string
  | Proxy_unregisterHandler string
  | Proxy_executeCommand string "jsval list"

subsection \<open>State\<close>

text \<open>
  The fields of the two classes. \<^verbatim>\<open>handle\<close> is the number that \<^verbatim>\<open>handle++\<close> counts up
  by one from 0, a natural number here. The field \<^verbatim>\<open>commands\<close> of the converter, its
  registry, is the state that holds the converter; \<^verbatim>\<open>proxy\<close> is the list of the calls
  made through the proxy so far.
\<close>

record CommandsConverter =
  safeCommandId :: string
  commandsMap :: "nat \<rightharpoonup> Command"
  handle :: nat
  isSafeCommandRegistered :: bool

record CommandRegistryImpl =
  proxy :: "proxy_call list"
  commands :: "string set"
  handlers :: "string \<rightharpoonup> bound_handler"
  argumentProcessors :: "ArgumentProcessor list"
  commandsConverter :: CommandsConverter

text \<open>
  The two constructors. The identifier of the trampoline command is
  \<^verbatim>\<open>theia_safe_cmd_\<close> followed by \<^verbatim>\<open>Date.now()\<close>; the clock's digits are a parameter.
\<close>

definition new_CommandsConverter :: "string \<Rightarrow> CommandsConverter" where
  "new_CommandsConverter now =
     \<lparr>safeCommandId = ''theia_safe_cmd_'' @ now,
      commandsMap = Map.empty,
      handle = 0,
      isSafeCommandRegistered = False\<rparr>"

definition new_CommandRegistryImpl :: "string \<Rightarrow> CommandRegistryImpl" where
  "new_CommandRegistryImpl now =
     \<lparr>proxy = [],
      commands = {},
      handlers = Map.empty,
      argumentProcessors = [],
      commandsConverter = new_CommandsConverter now\<rparr>"

subsection \<open>Disposables\<close>

text \<open>
  The three arrow functions that the file wraps into a \<^verbatim>\<open>Disposable\<close>: the one of
  \<^verbatim>\<open>registerCommand\<close> (lines 62 to 65), the one of \<^verbatim>\<open>registerHandler\<close> (lines 77 to
  80) and the one of \<^verbatim>\<open>toSafeCommand\<close> (line 169).
\<close>

datatype release =
    Release_command string
  | Release_handler string
  | Release_handle nat

fun run_release :: "release \<Rightarrow> CommandRegistryImpl \<Rightarrow> CommandRegistryImpl" where
  "run_release (Release_command i) s =
     s\<lparr>commands := commands s - {i},
       proxy := proxy s @ [Proxy_unregisterCommand i]\<rparr>"
| "run_release (Release_handler commandId) s =
     s\<lparr>handlers := (handlers s)(commandId := None),
       proxy := proxy s @ [Proxy_unregisterHandler commandId]\<rparr>"
| "run_release (Release_handle i) s =
     s\<lparr>commandsConverter := (commandsConverter s)
         \<lparr>commandsMap := (commandsMap (commandsConverter s))(i := None)\<rparr>\<rparr>"

text \<open>
  Modelled from the spec: the class \<^verbatim>\<open>Disposable\<close> of \<^verbatim>\<open>./types-impl\<close> is not among
  the sources. A disposable made by \<^verbatim>\<open>Disposable.create\<close> or \<^verbatim>\<open>new Disposable\<close> holds
  one function and runs it on release; the composite of \<^verbatim>\<open>Disposable.from\<close> releases
  its members in the order they were given. \<open>dispose\<close> is the first release of a
  disposable.
\<close>

datatype Disposable =
    Disposable_create release
  | Disposable_from "Disposable list"

fun dispose :: "Disposable \<Rightarrow> CommandRegistryImpl \<Rightarrow> CommandRegistryImpl" where
  "dispose (Disposable_create f) s = run_release f s"
| "dispose (Disposable_from ds) s = fold dispose ds s"

text \<open>
  Modelled from the spec: \<^verbatim>\<open>DisposableCollection\<close> of \<^verbatim>\<open>@theia/core\<close> is not among
  the sources. The disposal scope accumulates disposables and releases them together;
  here the one pushed last is released first.
\<close>

type_synonym DisposableCollection = "Disposable list"

definition push :: "DisposableCollection \<Rightarrow> Disposable \<Rightarrow> DisposableCollection" where
  "push disposables d = disposables @ [d]"

definition dispose_collection ::
  "DisposableCollection \<Rightarrow> CommandRegistryImpl \<Rightarrow> CommandRegistryImpl" where
  "dispose_collection disposables s = fold dispose (rev disposables) s"

subsection \<open>Registration\<close>

definition registerHandler ::
  "string \<Rightarrow> handler_fn \<Rightarrow> receiver \<Rightarrow> CommandRegistryImpl
     \<Rightarrow> (thrown + Disposable) \<times> CommandRegistryImpl" where
  "registerHandler commandId handler thisArg s =
     (if handlers s commandId \<noteq> None
      then (Inl (Error (''Command '' @ [CHR 0x22] @ commandId @ [CHR 0x22]
                         @ '' already has handler'')), s)
      else (Inr (Disposable_create (Release_handler commandId)),
            s\<lparr>proxy := proxy s @ [Proxy_registerHandler commandId],
              handlers := (handlers s)(commandId \<mapsto> (handler, thisArg))\<rparr>))"

definition registerCommand ::
  "CommandDescription \<Rightarrow> handler_fn option \<Rightarrow> receiver \<Rightarrow> CommandRegistryImpl
     \<Rightarrow> (thrown + Disposable) \<times> CommandRegistryImpl" where
  "registerCommand cmd handler thisArg s =
     (if cmd_id cmd \<in> commands s
      then (Inl (Error (''Command '' @ cmd_id cmd @ '' already exist'')), s)
      else
        let s1 = s\<lparr>commands := insert (cmd_id cmd) (commands s),
                   proxy := proxy s @ [Proxy_registerCommand cmd]\<rparr>;
            last_one = Disposable_create (Release_command (cmd_id cmd))
        in case handler of
             None \<Rightarrow> (Inr (Disposable_from [last_one]), s1)
           | Some h \<Rightarrow>
               (case registerHandler (cmd_id cmd) h thisArg s1 of
                  (Inl e, s2) \<Rightarrow> (Inl e, s2)
                | (Inr d, s2) \<Rightarrow> (Inr (Disposable_from [d, last_one]), s2)))"

definition registerArgumentProcessor ::
  "ArgumentProcessor \<Rightarrow> CommandRegistryImpl \<Rightarrow> CommandRegistryImpl" where
  "registerArgumentProcessor processor s =
     s\<lparr>argumentProcessors := argumentProcessors s @ [processor]\<rparr>"

subsection \<open>Execution\<close>

text \<open>
  What the file calls and does not define. \<^verbatim>\<open>KnownCommands.map\<close> of
  \<^verbatim>\<open>./type-converters\<close> translates an identifier and its arguments into the remote
  side's identifier and arguments and hands them to its callback; the remote side
  answers \<^verbatim>\<open>$executeCommand\<close> with a promise.
\<close>

record remote =
  KnownCommands_map :: "string \<Rightarrow> jsval list \<Rightarrow> string \<times> jsval list"
  remote_executeCommand :: "string \<Rightarrow> jsval list \<Rightarrow> promise"

text \<open>\<^verbatim>\<open>this.argumentProcessors.reduce((r, p) => p.processArgument(r), arg)\<close>\<close>

definition processArgument :: "CommandRegistryImpl \<Rightarrow> jsval \<Rightarrow> jsval" where
  "processArgument s arg = foldl (\<lambda>r p. p r) arg (argumentProcessors s)"

text \<open>
  \<^verbatim>\<open>this.commandsMap.get(args[0])\<close>: the keys of the map are the numbers that
  \<^verbatim>\<open>handle++\<close> gave out, so only such a number finds an entry; \<^verbatim>\<open>args[0]\<close> of an empty
  list is \<^verbatim>\<open>undefined\<close>.
\<close>

definition commandsMap_get :: "CommandRegistryImpl \<Rightarrow> jsval list \<Rightarrow> Command option" where
  "commandsMap_get s args =
     (case (case args of [] \<Rightarrow> JSUndefined | a # _ \<Rightarrow> a) of
        JSNumber n \<Rightarrow> (if 0 \<le> n then commandsMap (commandsConverter s) (nat n) else None)
      | _ \<Rightarrow> None)"

text \<open>A string option as a condition: absent and the empty string are falsy.\<close>

definition truthy :: "string option \<Rightarrow> bool" where
  "truthy x = (case x of None \<Rightarrow> False | Some v \<Rightarrow> v \<noteq> [])"

text \<open>
  The trampoline may be handed a command that names the trampoline again, so the
  three methods below can call each other without end. The first argument bounds the
  number of times \<^verbatim>\<open>executeSafeCommand\<close> re-enters \<^verbatim>\<open>executeCommand\<close>; \<open>None\<close> says the
  bound was reached.

  \<open>apply_handler\<close> is a call of the closure that \<^verbatim>\<open>registerHandler\<close> stored, made in
  line 115 inside the \<^verbatim>\<open>async\<close> method. The private method \<^verbatim>\<open>executeSafeCommand\<close> is
  only ever stored with the converter as its receiver; with another receiver its first
  line reads \<^verbatim>\<open>commandsMap\<close> of a value that has none, a \<^verbatim>\<open>TypeError\<close>, which rejects
  the promise.
\<close>

function executeCommand ::
      "nat \<Rightarrow> remote \<Rightarrow> string \<Rightarrow> jsval list \<Rightarrow> CommandRegistryImpl
         \<Rightarrow> (promise \<times> CommandRegistryImpl) option"
  and executeLocalCommand ::
      "nat \<Rightarrow> remote \<Rightarrow> string \<Rightarrow> jsval list \<Rightarrow> CommandRegistryImpl
         \<Rightarrow> (promise \<times> CommandRegistryImpl) option"
  and apply_handler ::
      "nat \<Rightarrow> remote \<Rightarrow> bound_handler \<Rightarrow> jsval list \<Rightarrow> CommandRegistryImpl
         \<Rightarrow> (promise \<times> CommandRegistryImpl) option"
  and executeSafeCommand ::
      "nat \<Rightarrow> remote \<Rightarrow> jsval list \<Rightarrow> CommandRegistryImpl
         \<Rightarrow> (promise \<times> CommandRegistryImpl) option"
where
  "executeCommand n R i args s =
     (if handlers s i \<noteq> None
      then executeLocalCommand n R i args s
      else
        (case KnownCommands_map R i args of
           (mappedId, mappedArgs) \<Rightarrow>
             Some (remote_executeCommand R mappedId mappedArgs,
                   s\<lparr>proxy := proxy s @ [Proxy_executeCommand mappedId mappedArgs]\<rparr>)))"
| "executeLocalCommand n R i args s =
     (case handlers s i of
        Some handler \<Rightarrow> apply_handler n R handler (map (processArgument s) args) s
      | None \<Rightarrow>
          Some (Rejected (Error (''Command '' @ i @ '' doesn'' @ [CHR 0x27] @ ''t exist'')), s))"
| "apply_handler n R (PluginFn f, thisArg) args s = Some (f thisArg args, s)"
| "apply_handler n R (ExecuteSafeCommand, thisArg) args s =
     (if thisArg = ThisConverter
      then executeSafeCommand n R args s
      else Some (Rejected (Error ''TypeError''), s))"
| "executeSafeCommand n R args s =
     (case commandsMap_get s args of
        None \<Rightarrow> Some (Rejected (Thrown (JSString ''command NOT FOUND'')), s)
      | Some cmd \<Rightarrow>
          (case command cmd of
             None \<Rightarrow> Some (Rejected (Thrown (JSString ''command NOT FOUND'')), s)
           | Some c \<Rightarrow>
               (if c = []
                then Some (Rejected (Thrown (JSString ''command NOT FOUND'')), s)
                else
                  (case n of
                     0 \<Rightarrow> None
                   | Suc m \<Rightarrow>
                       executeCommand m R c
                         (case arguments cmd of None \<Rightarrow> [] | Some as \<Rightarrow> as) s))))"
  by pat_completeness auto

termination
  by (relation "inv_image (less_than <*lex*> less_than)
        (\<lambda>x. case x of
           Inl (Inl (n, _)) \<Rightarrow> (n, 3::nat)
         | Inl (Inr (n, _)) \<Rightarrow> (n, 2)
         | Inr (Inl (n, _)) \<Rightarrow> (n, 1)
         | Inr (Inr (n, _)) \<Rightarrow> (n, 0))") auto

text \<open>
  \<^verbatim>\<open>$executeCommand\<close>, the invocation that comes from the remote side
  (interface \<^verbatim>\<open>CommandRegistryExt\<close>).
\<close>

definition ext_executeCommand ::
  "nat \<Rightarrow> remote \<Rightarrow> string \<Rightarrow> jsval list \<Rightarrow> CommandRegistryImpl
     \<Rightarrow> (promise \<times> CommandRegistryImpl) option" where
  "ext_executeCommand n R i args s =
     (if handlers s i \<noteq> None
      then executeLocalCommand n R i args s
      else Some (Rejected (Error (''Command: '' @ i @ '' does not exist.'')), s))"

subsection \<open>The converter\<close>

definition toSafeCommand ::
  "Command \<Rightarrow> DisposableCollection \<Rightarrow> CommandRegistryImpl
     \<Rightarrow> (thrown + Command) \<times> DisposableCollection \<times> CommandRegistryImpl" where
  "toSafeCommand cmd disposables s =
     (case
        (if \<not> isSafeCommandRegistered (commandsConverter s)
         then
           (case registerCommand
                   \<lparr>cmd_id = safeCommandId (commandsConverter s), label = None\<rparr>
                   (Some ExecuteSafeCommand) ThisConverter s of
              (Inl e, s1) \<Rightarrow> (Some e, s1)
            | (Inr d, s1) \<Rightarrow>
                (None, s1\<lparr>commandsConverter :=
                           (commandsConverter s1)\<lparr>isSafeCommandRegistered := True\<rparr>\<rparr>))
         else (None, s)) of
        (Some e, s1) \<Rightarrow> (Inl e, disposables, s1)
      | (None, s1) \<Rightarrow>
          (if truthy (command cmd)
              \<and> (case arguments cmd of None \<Rightarrow> False | Some as \<Rightarrow> length as > 0)
           then
             let i = handle (commandsConverter s1);
                 s2 = s1\<lparr>commandsConverter := (commandsConverter s1)
                          \<lparr>handle := i + 1,
                           commandsMap := (commandsMap (commandsConverter s1))(i \<mapsto> cmd)\<rparr>\<rparr>
             in (Inr (cmd\<lparr>command := Some (safeCommandId (commandsConverter s1)),
                          arguments := Some [JSNumber (int i)]\<rparr>),
                 push disposables (Disposable_create (Release_handle i)),
                 s2)
           else (Inr cmd, disposables, s1)))"

subsection \<open>Notions used in the statements\<close>

text \<open>The functions a disposable holds, in the order it runs them.\<close>

fun releases :: "Disposable \<Rightarrow> release list" where
  "releases (Disposable_create f) = [f]"
| "releases (Disposable_from ds) = concat (map releases ds)"

text \<open>
  The invariant of the converter: every handle that has a command stored is below the
  counter the next handle is taken from.
\<close>

definition handles_below_counter :: "CommandRegistryImpl \<Rightarrow> bool" where
  "handles_below_counter s =
     (\<forall>k \<in> dom (commandsMap (commandsConverter s)). k < handle (commandsConverter s))"

text \<open>
  The states in which the first lines of \<^verbatim>\<open>toSafeCommand\<close> do not throw: the trampoline
  is registered already, or its identifier is neither a registered command nor has a
  handler, so that \<^verbatim>\<open>registerCommand\<close> accepts it.
\<close>

definition trampoline_available :: "CommandRegistryImpl \<Rightarrow> bool" where
  "trampoline_available s =
     (isSafeCommandRegistered (commandsConverter s)
      \<or> (safeCommandId (commandsConverter s) \<notin> commands s
           \<and> handlers s (safeCommandId (commandsConverter s)) = None))"

subsection \<open>Example registries\<close>

text \<open>Concrete registries, handlers and processors at which the theorems are instantiated.\<close>

definition example_registry :: CommandRegistryImpl where
  "example_registry = new_CommandRegistryImpl ''0''"

definition sum_handler :: handler_fn where
  "sum_handler =
     PluginFn (\<lambda>thisArg args.
       Resolved (JSNumber (sum_list (map (\<lambda>a. case a of JSNumber n \<Rightarrow> n | _ \<Rightarrow> 0) args))))"

definition add_one :: ArgumentProcessor where
  "add_one v = (case v of JSNumber n \<Rightarrow> JSNumber (n + 1) | _ \<Rightarrow> v)"

definition example_remote :: remote where
  "example_remote =
     \<lparr>KnownCommands_map = (\<lambda>i args. (i, args)),
      remote_executeCommand = (\<lambda>i args. Resolved (JSString i))\<rparr>"

definition registry_with_x :: CommandRegistryImpl where
  "registry_with_x =
     snd (registerHandler ''x'' sum_handler (ThisArg JSUndefined) example_registry)"

definition registry_with_processors :: CommandRegistryImpl where
  "registry_with_processors =
     registerArgumentProcessor add_one (registerArgumentProcessor add_one registry_with_x)"

definition example_command :: Command where
  "example_command =
     \<lparr>command = Some ''x'', title = Some ''Run x'',
      arguments = Some [JSNumber 1, JSNumber 2]\<rparr>"

definition command_without_identifier :: Command where
  "command_without_identifier =
     \<lparr>command = None, title = None, arguments = Some [JSNumber 7]\<rparr>"

definition converted_registry :: CommandRegistryImpl where
  "converted_registry = snd (snd (toSafeCommand example_command [] registry_with_x))"

definition registry_with_y :: CommandRegistryImpl where
  "registry_with_y =
     snd (registerCommand \<lparr>cmd_id = ''y'', label = None\<rparr> None (ThisArg JSUndefined)
            example_registry)"

definition registry_with_y_handler :: CommandRegistryImpl where
  "registry_with_y_handler =
     snd (registerHandler ''y'' sum_handler (ThisArg JSUndefined) registry_with_y)"

section \<open>Properties\<close>

declare executeCommand.simps [simp del] executeLocalCommand.simps [simp del]
  apply_handler.simps [simp del] executeSafeCommand.simps [simp del]

lemmas example_defs =
  example_registry_def new_CommandRegistryImpl_def new_CommandsConverter_def
  registry_with_x_def registry_with_processors_def registerHandler_def
  registerArgumentProcessor_def

lemmas converter_example_defs =
  example_command_def command_without_identifier_def converted_registry_def
  registry_with_y_def registry_with_y_handler_def
  toSafeCommand_def registerCommand_def push_def truthy_def

subsection \<open>Remote-originated invocation\<close>

lemma ext_executeCommand_proxy:
  assumes run: "ext_executeCommand n R i args s = Some (p, s')"
    and other: "handlers s i \<noteq> Some (ExecuteSafeCommand, ThisConverter)"
  shows "s' = s"
proof (cases "handlers s i")
  case None
  with run show ?thesis by (simp add: ext_executeCommand_def)
next
  case (Some h)
  obtain fn this where h: "h = (fn, this)" by (cases h)
  show ?thesis
  proof (cases fn)
    case (PluginFn f)
    with run Some h show ?thesis
      by (simp add: ext_executeCommand_def executeLocalCommand.simps apply_handler.simps)
  next
    case ExecuteSafeCommand
    with other Some h have "this \<noteq> ThisConverter" by simp
    with run Some h ExecuteSafeCommand show ?thesis
      by (simp add: ext_executeCommand_def executeLocalCommand.simps apply_handler.simps)
  qed
qed

text \<open>
  Claim C4. For every identifier and argument list, \<^verbatim>\<open>$executeCommand\<close> runs the local
  handler when one is attached to the identifier (on the processed arguments), and
  otherwise returns a rejected promise and leaves the state as it was: it sends nothing
  through the proxy. Whenever a run of \<^verbatim>\<open>$executeCommand\<close> does send something, the
  handler it ran is the converter's trampoline, which re-executes the command it stored.
\<close>

theorem ext_executeCommand_local_only:
  "(\<forall>h. handlers s i = Some h \<longrightarrow>
      ext_executeCommand n R i args s =
        apply_handler n R h (map (processArgument s) args) s)
   \<and> (\<forall>f thisArg. handlers s i = Some (PluginFn f, thisArg) \<longrightarrow>
        ext_executeCommand n R i args s = Some (f thisArg (map (processArgument s) args), s))
   \<and> (handlers s i = None \<longrightarrow>
        ext_executeCommand n R i args s =
          Some (Rejected (Error (''Command: '' @ i @ '' does not exist.'')), s))
   \<and> (\<forall>p s'. ext_executeCommand n R i args s = Some (p, s') \<and> proxy s' \<noteq> proxy s \<longrightarrow>
        handlers s i = Some (ExecuteSafeCommand, ThisConverter))"
proof (intro conjI allI impI)
  fix h assume "handlers s i = Some h"
  then show "ext_executeCommand n R i args s =
      apply_handler n R h (map (processArgument s) args) s"
    by (simp add: ext_executeCommand_def executeLocalCommand.simps)
next
  fix f thisArg assume "handlers s i = Some (PluginFn f, thisArg)"
  then show "ext_executeCommand n R i args s =
      Some (f thisArg (map (processArgument s) args), s)"
    by (simp add: ext_executeCommand_def executeLocalCommand.simps apply_handler.simps)
next
  assume "handlers s i = None"
  then show "ext_executeCommand n R i args s =
      Some (Rejected (Error (''Command: '' @ i @ '' does not exist.'')), s)"
    by (simp add: ext_executeCommand_def)
next
  fix p s'
  assume "ext_executeCommand n R i args s = Some (p, s') \<and> proxy s' \<noteq> proxy s"
  then show "handlers s i = Some (ExecuteSafeCommand, ThisConverter)"
    using ext_executeCommand_proxy by blast
qed

theorem ext_executeCommand_witness:
  "handlers registry_with_x ''x'' = Some (sum_handler, ThisArg JSUndefined)
   \<and> ext_executeCommand 0 example_remote ''x'' [JSNumber 1, JSNumber 2] registry_with_x
       = Some (Resolved (JSNumber 3), registry_with_x)
   \<and> handlers registry_with_x ''z'' = None
   \<and> ext_executeCommand 0 example_remote ''z'' [JSNumber 1, JSNumber 2] registry_with_x
       = Some (Rejected (Error ''Command: z does not exist.''), registry_with_x)"
  using ext_executeCommand_local_only
          [of registry_with_x "''x''" 0 example_remote "[JSNumber 1, JSNumber 2]"]
        ext_executeCommand_local_only
          [of registry_with_x "''z''" 0 example_remote "[JSNumber 1, JSNumber 2]"]
  by (simp add: example_defs sum_handler_def processArgument_def ext_executeCommand_def executeLocalCommand.simps apply_handler.simps)

subsection \<open>Registration\<close>

text \<open>
  Claim C5, as amended. For a description whose identifier is in the command set,
  \<^verbatim>\<open>registerCommand\<close> throws the duplicate error and changes nothing. For a fresh
  identifier, when no handler is supplied or the identifier has no handler attached
  yet, it records the identifier, tells the remote side, attaches the supplied handler
  and returns a disposable. For a fresh identifier with a handler supplied while one is
  already attached, the duplicate error of \<^verbatim>\<open>registerHandler\<close> is thrown.
\<close>

theorem registerCommand_duplicate_or_recorded:
  "(cmd_id cmd \<in> commands s \<longrightarrow>
      registerCommand cmd handler thisArg s =
        (Inl (Error (''Command '' @ cmd_id cmd @ '' already exist'')), s))
   \<and> (cmd_id cmd \<notin> commands s \<and> (handler = None \<or> handlers s (cmd_id cmd) = None) \<longrightarrow>
        (\<exists>d s'. registerCommand cmd handler thisArg s = (Inr d, s')
           \<and> commands s' = insert (cmd_id cmd) (commands s)
           \<and> proxy s' = proxy s @ Proxy_registerCommand cmd #
                (case handler of None \<Rightarrow> [] | Some h \<Rightarrow> [Proxy_registerHandler (cmd_id cmd)])
           \<and> handlers s' =
                (case handler of None \<Rightarrow> handlers s
                 | Some h \<Rightarrow> (handlers s)(cmd_id cmd \<mapsto> (h, thisArg)))))
   \<and> (cmd_id cmd \<notin> commands s \<and> handler \<noteq> None \<and> handlers s (cmd_id cmd) \<noteq> None \<longrightarrow>
        fst (registerCommand cmd handler thisArg s) =
          Inl (Error (''Command '' @ [CHR 0x22] @ cmd_id cmd @ [CHR 0x22]
                       @ '' already has handler'')))"
  by (auto simp: registerCommand_def registerHandler_def Let_def split: option.splits)

theorem registerCommand_witness:
  "''y'' \<notin> commands registry_with_x
   \<and> commands (snd (registerCommand \<lparr>cmd_id = ''y'', label = None\<rparr> (Some sum_handler)
                      (ThisArg JSUndefined) registry_with_x)) = {''y''}
   \<and> ''x'' \<notin> commands registry_with_x \<and> handlers registry_with_x ''x'' \<noteq> None
   \<and> fst (registerCommand \<lparr>cmd_id = ''x'', label = None\<rparr> (Some sum_handler)
             (ThisArg JSUndefined) registry_with_x)
       = Inl (Error (''Command '' @ [CHR 0x22] @ ''x'' @ [CHR 0x22] @ '' already has handler''))
   \<and> ''y'' \<in> commands (snd (registerCommand \<lparr>cmd_id = ''y'', label = None\<rparr> None
                      (ThisArg JSUndefined) registry_with_x))
   \<and> fst (registerCommand \<lparr>cmd_id = ''y'', label = None\<rparr> None (ThisArg JSUndefined)
        (snd (registerCommand \<lparr>cmd_id = ''y'', label = None\<rparr> None
                      (ThisArg JSUndefined) registry_with_x)))
       = Inl (Error ''Command y already exist'')"
  using registerCommand_duplicate_or_recorded
          [of "\<lparr>cmd_id = ''y'', label = None\<rparr>" registry_with_x "Some sum_handler"
              "ThisArg JSUndefined"]
        registerCommand_duplicate_or_recorded
          [of "\<lparr>cmd_id = ''x'', label = None\<rparr>" registry_with_x "Some sum_handler"
              "ThisArg JSUndefined"]
        registerCommand_duplicate_or_recorded
          [of "\<lparr>cmd_id = ''y'', label = None\<rparr>"
              "snd (registerCommand \<lparr>cmd_id = ''y'', label = None\<rparr> None
                      (ThisArg JSUndefined) registry_with_x)" None "ThisArg JSUndefined"]
  by (simp add: example_defs registerCommand_def)

text \<open>
  The claim as the spec states it fails where a handler was attached to the identifier
  through \<^verbatim>\<open>registerHandler\<close> before the command is registered with a handler of its
  own: the identifier is fresh, and the call throws.
\<close>

theorem registerCommand_fresh_counterexample:
  "''x'' \<notin> commands registry_with_x
   \<and> fst (registerCommand \<lparr>cmd_id = ''x'', label = None\<rparr> (Some sum_handler)
             (ThisArg JSUndefined) registry_with_x)
       = Inl (Error (''Command '' @ [CHR 0x22] @ ''x'' @ [CHR 0x22] @ '' already has handler''))"
  by (simp add: example_defs registerCommand_def)

text \<open>
  Claim C6. For an identifier that has a handler, \<^verbatim>\<open>registerHandler\<close> throws the
  duplicate error and changes nothing. For an identifier without one it stores the
  handler with the receiver it was given, tells the remote side, and returns a
  disposable; from then on an invocation of the identifier applies the handler, a plugin
  function with that receiver; releasing the disposable detaches the handler and tells
  the remote side.
\<close>

theorem registerHandler_duplicate_or_bound:
  "(handlers s commandId \<noteq> None \<longrightarrow>
      registerHandler commandId handler thisArg s =
        (Inl (Error (''Command '' @ [CHR 0x22] @ commandId @ [CHR 0x22]
                      @ '' already has handler'')), s))
   \<and> (handlers s commandId = None \<longrightarrow>
        (\<exists>d s'. registerHandler commandId handler thisArg s = (Inr d, s')
           \<and> handlers s' = (handlers s)(commandId \<mapsto> (handler, thisArg))
           \<and> proxy s' = proxy s @ [Proxy_registerHandler commandId]
           \<and> commands s' = commands s
           \<and> (\<forall>n R args. ext_executeCommand n R commandId args s' =
                 apply_handler n R (handler, thisArg) (map (processArgument s') args) s')
           \<and> (\<forall>f n R args. handler = PluginFn f \<longrightarrow>
                 ext_executeCommand n R commandId args s' =
                   Some (f thisArg (map (processArgument s') args), s'))
           \<and> (\<forall>t. handlers (dispose d t) commandId = None
                 \<and> proxy (dispose d t) = proxy t @ [Proxy_unregisterHandler commandId])))"
  by (simp add: registerHandler_def ext_executeCommand_def executeLocalCommand.simps
      apply_handler.simps)

theorem registerHandler_witness:
  "handlers example_registry ''x'' = None
   \<and> ext_executeCommand 0 example_remote ''x'' [JSNumber 1, JSNumber 2]
         (snd (registerHandler ''x'' sum_handler (ThisArg JSUndefined) example_registry))
       = Some (Resolved (JSNumber 3),
           snd (registerHandler ''x'' sum_handler (ThisArg JSUndefined) example_registry))
   \<and> handlers registry_with_x ''x'' \<noteq> None
   \<and> fst (registerHandler ''x'' sum_handler (ThisArg JSNull) registry_with_x)
       = Inl (Error (''Command '' @ [CHR 0x22] @ ''x'' @ [CHR 0x22] @ '' already has handler''))"
  using registerHandler_duplicate_or_bound
          [of example_registry "''x''" sum_handler "ThisArg JSUndefined"]
        registerHandler_duplicate_or_bound
          [of registry_with_x "''x''" sum_handler "ThisArg JSNull"]
  by (simp add: example_defs sum_handler_def processArgument_def ext_executeCommand_def executeLocalCommand.simps apply_handler.simps)

subsection \<open>Local execution\<close>

text \<open>
  Claim C7. For every identifier with a local handler, \<^verbatim>\<open>executeCommand\<close> returns what
  the handler returns for the processed arguments. Processing an argument with no
  processor registered leaves it as it is, and a processor registered later is applied
  to the result of the ones registered before it.
\<close>

theorem executeCommand_local_processed:
  "(\<forall>h. handlers s i = Some h \<longrightarrow>
      executeCommand n R i args s = apply_handler n R h (map (processArgument s) args) s)
   \<and> (\<forall>f thisArg. handlers s i = Some (PluginFn f, thisArg) \<longrightarrow>
        executeCommand n R i args s = Some (f thisArg (map (processArgument s) args), s))
   \<and> (argumentProcessors s = [] \<longrightarrow> processArgument s arg = arg)
   \<and> processArgument (registerArgumentProcessor p s) arg = p (processArgument s arg)
   \<and> handlers (registerArgumentProcessor p s) = handlers s"
  by (simp add: executeCommand.simps executeLocalCommand.simps apply_handler.simps
      processArgument_def registerArgumentProcessor_def)

text \<open>Two processors that each add 1: the handler sums 3 and 4, not 1 and 2.\<close>

theorem executeCommand_witness:
  "handlers registry_with_processors ''x'' = Some (sum_handler, ThisArg JSUndefined)
   \<and> argumentProcessors registry_with_processors = [add_one, add_one]
   \<and> executeCommand 0 example_remote ''x'' [JSNumber 1, JSNumber 2] registry_with_processors
       = Some (Resolved (JSNumber 7), registry_with_processors)"
  using executeCommand_local_processed
          [of registry_with_processors "''x''" 0 example_remote "[JSNumber 1, JSNumber 2]"]
  by (simp add: example_defs sum_handler_def processArgument_def add_one_def executeCommand.simps executeLocalCommand.simps apply_handler.simps)

subsection \<open>Disposal of a registered command\<close>

lemma registerCommand_disposable:
  assumes "registerCommand cmd handler thisArg s = (Inr d, s')"
  shows "d = Disposable_from
           ((case handler of None \<Rightarrow> []
             | Some h \<Rightarrow> [Disposable_create (Release_handler (cmd_id cmd))])
            @ [Disposable_create (Release_command (cmd_id cmd))])"
  using assms
  by (auto simp: registerCommand_def registerHandler_def Let_def
      split: if_splits option.splits)

text \<open>
  Claim C8, as amended. Releasing the disposable that \<^verbatim>\<open>registerCommand\<close> returned, in
  whatever state the registry is by then, removes the identifier from the command set,
  detaches the handler if the registration attached one, and tells the remote side of
  each. A \<^verbatim>\<open>$executeCommand\<close> for the identifier is then rejected as not found when the
  registration attached a handler, or when no handler is attached to the identifier at
  the time of the release.
\<close>

theorem registerCommand_disposal:
  assumes run: "registerCommand cmd handler thisArg s = (Inr d, s')"
  shows "commands (dispose d t) = commands t - {cmd_id cmd}
     \<and> handlers (dispose d t) =
         (if handler = None then handlers t else (handlers t)(cmd_id cmd := None))
     \<and> proxy (dispose d t) =
         proxy t
         @ (case handler of None \<Rightarrow> [] | Some h \<Rightarrow> [Proxy_unregisterHandler (cmd_id cmd)])
         @ [Proxy_unregisterCommand (cmd_id cmd)]
     \<and> (handler \<noteq> None \<or> handlers t (cmd_id cmd) = None \<longrightarrow>
          ext_executeCommand n R (cmd_id cmd) args (dispose d t) =
            Some (Rejected (Error (''Command: '' @ cmd_id cmd @ '' does not exist.'')),
                  dispose d t))"
proof (cases handler)
  case None
  with registerCommand_disposable [OF run]
  have d: "d = Disposable_from [Disposable_create (Release_command (cmd_id cmd))]"
    by simp
  show ?thesis
    unfolding d using None by (simp add: ext_executeCommand_def)
next
  case (Some h)
  with registerCommand_disposable [OF run]
  have d: "d = Disposable_from [Disposable_create (Release_handler (cmd_id cmd)),
                                Disposable_create (Release_command (cmd_id cmd))]"
    by simp
  show ?thesis
    unfolding d using Some by (simp add: ext_executeCommand_def)
qed

theorem registerCommand_disposal_witness:
  "registerCommand \<lparr>cmd_id = ''y'', label = None\<rparr> (Some sum_handler) (ThisArg JSUndefined)
       example_registry =
     (Inr (Disposable_from [Disposable_create (Release_handler ''y''),
                            Disposable_create (Release_command ''y'')]),
      snd (registerCommand \<lparr>cmd_id = ''y'', label = None\<rparr> (Some sum_handler)
             (ThisArg JSUndefined) example_registry))
   \<and> map_option fst
        (ext_executeCommand 0 example_remote ''y'' [JSNumber 1, JSNumber 2]
          (snd (registerCommand \<lparr>cmd_id = ''y'', label = None\<rparr> (Some sum_handler)
             (ThisArg JSUndefined) example_registry))) = Some (Resolved (JSNumber 3))
   \<and> map_option fst
        (ext_executeCommand 0 example_remote ''y'' [JSNumber 1, JSNumber 2]
          (dispose (Disposable_from [Disposable_create (Release_handler ''y''),
                                     Disposable_create (Release_command ''y'')])
            (snd (registerCommand \<lparr>cmd_id = ''y'', label = None\<rparr> (Some sum_handler)
               (ThisArg JSUndefined) example_registry)))) =
       Some (Rejected (Error ''Command: y does not exist.''))"
proof -
  have run: "registerCommand \<lparr>cmd_id = ''y'', label = None\<rparr> (Some sum_handler)
       (ThisArg JSUndefined) example_registry =
     (Inr (Disposable_from [Disposable_create (Release_handler ''y''),
                            Disposable_create (Release_command ''y'')]),
      snd (registerCommand \<lparr>cmd_id = ''y'', label = None\<rparr> (Some sum_handler)
             (ThisArg JSUndefined) example_registry))"
    by (simp add: example_defs registerCommand_def)
  have before: "map_option fst
        (ext_executeCommand 0 example_remote ''y'' [JSNumber 1, JSNumber 2]
          (snd (registerCommand \<lparr>cmd_id = ''y'', label = None\<rparr> (Some sum_handler)
             (ThisArg JSUndefined) example_registry))) = Some (Resolved (JSNumber 3))"
    by (simp add: example_defs registerCommand_def ext_executeCommand_def
        executeLocalCommand.simps apply_handler.simps sum_handler_def processArgument_def)
  show ?thesis
    using registerCommand_disposal [OF run, of _ 0 example_remote "[JSNumber 1, JSNumber 2]"]
      run before
    by simp
qed

text \<open>
  The claim as the spec states it fails for a command registered without a handler whose
  handler was attached through \<^verbatim>\<open>registerHandler\<close>: the disposable of the command does
  not hold that handler, which goes on answering \<^verbatim>\<open>$executeCommand\<close>.
\<close>

theorem registerCommand_disposal_counterexample:
  "fst (registerCommand \<lparr>cmd_id = ''y'', label = None\<rparr> None (ThisArg JSUndefined)
          example_registry) =
     Inr (Disposable_from [Disposable_create (Release_command ''y'')])
   \<and> ''y'' \<notin> commands
        (dispose (Disposable_from [Disposable_create (Release_command ''y'')])
           registry_with_y_handler)
   \<and> map_option fst
        (ext_executeCommand 0 example_remote ''y'' [JSNumber 1, JSNumber 2]
          (dispose (Disposable_from [Disposable_create (Release_command ''y'')])
             registry_with_y_handler)) =
       Some (Resolved (JSNumber 3))"
  by (simp add: example_defs converter_example_defs ext_executeCommand_def
      executeLocalCommand.simps apply_handler.simps sum_handler_def processArgument_def)

subsection \<open>What disposing does to the converter\<close>

lemma commandsMap_fold_dispose:
  assumes "\<And>d s. d \<in> set ds \<Longrightarrow>
      commandsMap (commandsConverter (dispose d s)) k =
        (if Release_handle k \<in> set (releases d) then None
         else commandsMap (commandsConverter s) k)"
  shows "commandsMap (commandsConverter (fold dispose ds s)) k =
      (if \<exists>d \<in> set ds. Release_handle k \<in> set (releases d) then None
       else commandsMap (commandsConverter s) k)"
  using assms by (induction ds arbitrary: s) auto

lemma commandsMap_dispose:
  "commandsMap (commandsConverter (dispose d s)) k =
     (if Release_handle k \<in> set (releases d) then None
      else commandsMap (commandsConverter s) k)"
proof (induction d s rule: dispose.induct)
  case (1 f s)
  then show ?case by (cases f) simp_all
next
  case (2 ds s)
  then show ?case by (simp add: commandsMap_fold_dispose)
qed

lemma commandsMap_dispose_collection:
  "commandsMap (commandsConverter (dispose_collection scope s)) k =
     (if \<exists>d \<in> set scope. Release_handle k \<in> set (releases d) then None
      else commandsMap (commandsConverter s) k)"
  using commandsMap_fold_dispose [of "rev scope" k s]
  by (simp add: dispose_collection_def commandsMap_dispose)

lemma handle_fold_dispose:
  assumes "\<And>d s. d \<in> set ds \<Longrightarrow>
      handle (commandsConverter (dispose d s)) = handle (commandsConverter s)"
  shows "handle (commandsConverter (fold dispose ds s)) = handle (commandsConverter s)"
  using assms by (induction ds arbitrary: s) auto

lemma handle_dispose:
  "handle (commandsConverter (dispose d s)) = handle (commandsConverter s)"
proof (induction d s rule: dispose.induct)
  case (1 f s)
  then show ?case by (cases f) simp_all
next
  case (2 ds s)
  then show ?case by (simp add: handle_fold_dispose)
qed

lemma exec_keeps_tables:
  "executeCommand n R i args s = Some (p, s') \<Longrightarrow>
     commandsConverter s' = commandsConverter s \<and> handlers s' = handlers s
     \<and> commands s' = commands s \<and> argumentProcessors s' = argumentProcessors s"
  "executeLocalCommand n R i args s = Some (p, s') \<Longrightarrow>
     commandsConverter s' = commandsConverter s \<and> handlers s' = handlers s
     \<and> commands s' = commands s \<and> argumentProcessors s' = argumentProcessors s"
  "apply_handler n R h args s = Some (p, s') \<Longrightarrow>
     commandsConverter s' = commandsConverter s \<and> handlers s' = handlers s
     \<and> commands s' = commands s \<and> argumentProcessors s' = argumentProcessors s"
  "executeSafeCommand n R args s = Some (p, s') \<Longrightarrow>
     commandsConverter s' = commandsConverter s \<and> handlers s' = handlers s
     \<and> commands s' = commands s \<and> argumentProcessors s' = argumentProcessors s"
proof (induction n R i args s and n R i args s and n R h args s and n R args s
    arbitrary: p s' and p s' and p s' and p s'
    rule: executeCommand_executeLocalCommand_apply_handler_executeSafeCommand.induct)
  case (1 n R i args s)
  then show ?case
    by (auto simp: executeCommand.simps split: if_splits prod.splits)
next
  case (2 n R i args s)
  then show ?case
    by (auto simp: executeLocalCommand.simps split: option.splits)
next
  case (3 n R f thisArg args s)
  then show ?case by (auto simp: apply_handler.simps)
next
  case (4 n R thisArg args s)
  then show ?case by (auto simp: apply_handler.simps split: if_splits)
next
  case (5 n R args s)
  then show ?case
    by (auto simp: executeSafeCommand.simps split: option.splits if_splits nat.splits)
qed

subsection \<open>Conversion\<close>

lemma toSafeCommand_returns:
  "trampoline_available s \<Longrightarrow> \<exists>r scope' s'. toSafeCommand cmd scope s = (Inr r, scope', s')"
  by (auto simp: trampoline_available_def toSafeCommand_def registerCommand_def
      registerHandler_def Let_def)

lemma toSafeCommand_throws:
  "\<not> trampoline_available s \<Longrightarrow> \<exists>e. fst (toSafeCommand cmd scope s) = Inl e"
  by (auto simp: trampoline_available_def toSafeCommand_def registerCommand_def
      registerHandler_def Let_def)

lemma toSafeCommand_rewritten:
  assumes "toSafeCommand cmd scope s = (Inr r, scope', s')"
    and "truthy (command cmd)" and "arguments cmd = Some as" and "as \<noteq> []"
  shows "r = cmd\<lparr>command := Some (safeCommandId (commandsConverter s)),
                 arguments := Some [JSNumber (int (handle (commandsConverter s)))]\<rparr>"
    and "scope' = push scope (Disposable_create (Release_handle (handle (commandsConverter s))))"
    and "commandsMap (commandsConverter s') =
           (commandsMap (commandsConverter s))(handle (commandsConverter s) \<mapsto> cmd)"
    and "handle (commandsConverter s') = Suc (handle (commandsConverter s))"
    and "isSafeCommandRegistered (commandsConverter s')"
  using assms
  by (auto simp: toSafeCommand_def registerCommand_def registerHandler_def Let_def
      split: if_splits)

lemma toSafeCommand_copied:
  assumes "\<not> truthy (command cmd) \<or> arguments cmd = None \<or> arguments cmd = Some []"
  shows "fst (snd (toSafeCommand cmd scope s)) = scope"
    and "commandsMap (commandsConverter (snd (snd (toSafeCommand cmd scope s)))) =
           commandsMap (commandsConverter s)"
    and "handle (commandsConverter (snd (snd (toSafeCommand cmd scope s)))) =
           handle (commandsConverter s)"
    and "fst (toSafeCommand cmd scope s) = Inr r \<Longrightarrow> r = cmd"
  using assms
  by (auto simp: toSafeCommand_def registerCommand_def registerHandler_def Let_def
      split: if_splits)

text \<open>
  Claim C1, as amended. In a state where the trampoline can be registered,
  \<^verbatim>\<open>toSafeCommand\<close> returns a copy of the command. If the command has a non-empty
  identifier and a non-empty argument list, the copy names the trampoline, its only
  argument is the handle taken from the counter, the command is stored under that handle
  and the release of the handle is pushed onto the scope. Otherwise the copy equals the
  command, and counter, map and scope are as before. In a state where the trampoline
  cannot be registered the call throws.
\<close>

theorem toSafeCommand_rewrites_or_copies:
  "(trampoline_available s \<longrightarrow>
      (\<exists>r scope' s'. toSafeCommand cmd scope s = (Inr r, scope', s')
         \<and> (if truthy (command cmd) \<and> arguments cmd \<noteq> None \<and> arguments cmd \<noteq> Some []
             then r = cmd\<lparr>command := Some (safeCommandId (commandsConverter s)),
                         arguments := Some [JSNumber (int (handle (commandsConverter s)))]\<rparr>
                \<and> handle (commandsConverter s') = Suc (handle (commandsConverter s))
                \<and> commandsMap (commandsConverter s') (handle (commandsConverter s)) = Some cmd
                \<and> scope' = push scope
                     (Disposable_create (Release_handle (handle (commandsConverter s))))
             else r = cmd \<and> scope' = scope
                \<and> handle (commandsConverter s') = handle (commandsConverter s)
                \<and> commandsMap (commandsConverter s') = commandsMap (commandsConverter s))))
   \<and> (\<not> trampoline_available s \<longrightarrow> (\<exists>e. fst (toSafeCommand cmd scope s) = Inl e))"
proof (intro conjI impI)
  assume "trampoline_available s"
  then obtain r scope' s' where run: "toSafeCommand cmd scope s = (Inr r, scope', s')"
    using toSafeCommand_returns by blast
  show "\<exists>r scope' s'. toSafeCommand cmd scope s = (Inr r, scope', s')
         \<and> (if truthy (command cmd) \<and> arguments cmd \<noteq> None \<and> arguments cmd \<noteq> Some []
             then r = cmd\<lparr>command := Some (safeCommandId (commandsConverter s)),
                         arguments := Some [JSNumber (int (handle (commandsConverter s)))]\<rparr>
                \<and> handle (commandsConverter s') = Suc (handle (commandsConverter s))
                \<and> commandsMap (commandsConverter s') (handle (commandsConverter s)) = Some cmd
                \<and> scope' = push scope
                     (Disposable_create (Release_handle (handle (commandsConverter s))))
             else r = cmd \<and> scope' = scope
                \<and> handle (commandsConverter s') = handle (commandsConverter s)
                \<and> commandsMap (commandsConverter s') = commandsMap (commandsConverter s))"
  proof (cases "truthy (command cmd) \<and> arguments cmd \<noteq> None \<and> arguments cmd \<noteq> Some []")
    case True
    then obtain as where as: "arguments cmd = Some as" "as \<noteq> []" by auto
    from True have t: "truthy (command cmd)" by simp
    show ?thesis
      using True run toSafeCommand_rewritten [OF run t as] by simp
  next
    case False
    then have c: "\<not> truthy (command cmd) \<or> arguments cmd = None \<or> arguments cmd = Some []"
      by blast
    show ?thesis
      using False run toSafeCommand_copied [OF c, of scope s] by simp
  qed
next
  assume "\<not> trampoline_available s"
  then show "\<exists>e. fst (toSafeCommand cmd scope s) = Inl e"
    by (rule toSafeCommand_throws)
qed

theorem toSafeCommand_witness:
  "trampoline_available registry_with_x
   \<and> toSafeCommand example_command [] registry_with_x =
       (Inr \<lparr>command = Some ''theia_safe_cmd_0'', title = Some ''Run x'',
             arguments = Some [JSNumber 0]\<rparr>,
        [Disposable_create (Release_handle 0)], converted_registry)
   \<and> commandsMap (commandsConverter converted_registry) 0 = Some example_command
   \<and> \<not> trampoline_available
         (snd (registerHandler ''theia_safe_cmd_0'' sum_handler (ThisArg JSUndefined)
                 example_registry))
   \<and> fst (toSafeCommand example_command []
        (snd (registerHandler ''theia_safe_cmd_0'' sum_handler (ThisArg JSUndefined)
                 example_registry)))
      = Inl (Error (''Command '' @ [CHR 0x22] @ ''theia_safe_cmd_0'' @ [CHR 0x22]
                     @ '' already has handler''))"
  using toSafeCommand_rewrites_or_copies [of registry_with_x example_command "[]"]
    toSafeCommand_rewrites_or_copies
      [of "snd (registerHandler ''theia_safe_cmd_0'' sum_handler (ThisArg JSUndefined)
                 example_registry)" example_command "[]"]
  by (simp add: example_defs converter_example_defs trampoline_available_def)

text \<open>
  The claim as the spec states it fails for a command with arguments and no identifier:
  it is returned as it is, and nothing is stored.
\<close>

theorem toSafeCommand_arguments_counterexample:
  "arguments command_without_identifier = Some [JSNumber 7]
   \<and> fst (toSafeCommand command_without_identifier [] example_registry) =
       Inr command_without_identifier
   \<and> command command_without_identifier \<noteq> Some (safeCommandId (commandsConverter example_registry))
   \<and> commandsMap (commandsConverter
        (snd (snd (toSafeCommand command_without_identifier [] example_registry)))) 0 = None"
  by (simp add: example_defs converter_example_defs)

text \<open>
  Claim C10. For a command whose identifier is absent or empty (and likewise for one
  without arguments), \<^verbatim>\<open>toSafeCommand\<close> pushes nothing onto the scope, leaves the
  counter and the map as they were, and what it returns is the command, not rewritten;
  it does return whenever the trampoline can be registered. So a handle is given out
  only when the identifier is set and the argument list is non-empty.
\<close>

theorem toSafeCommand_without_identifier:
  assumes "\<not> truthy (command cmd) \<or> arguments cmd = None \<or> arguments cmd = Some []"
  shows "fst (snd (toSafeCommand cmd scope s)) = scope
     \<and> handle (commandsConverter (snd (snd (toSafeCommand cmd scope s)))) =
         handle (commandsConverter s)
     \<and> commandsMap (commandsConverter (snd (snd (toSafeCommand cmd scope s)))) =
         commandsMap (commandsConverter s)
     \<and> (\<forall>r. fst (toSafeCommand cmd scope s) = Inr r \<longrightarrow> r = cmd)
     \<and> (trampoline_available s \<longrightarrow> fst (toSafeCommand cmd scope s) = Inr cmd)"
proof -
  have "fst (toSafeCommand cmd scope s) = Inr cmd" if "trampoline_available s"
  proof -
    from that obtain r scope' s' where run: "toSafeCommand cmd scope s = (Inr r, scope', s')"
      using toSafeCommand_returns by blast
    then have "fst (toSafeCommand cmd scope s) = Inr r" by simp
    with toSafeCommand_copied(4) [OF assms] show ?thesis by simp
  qed
  then show ?thesis
    using toSafeCommand_copied [OF assms, of scope s] by blast
qed

theorem toSafeCommand_without_identifier_witness:
  "\<not> truthy (command command_without_identifier)
   \<and> arguments command_without_identifier = Some [JSNumber 7]
   \<and> trampoline_available example_registry
   \<and> toSafeCommand command_without_identifier [] example_registry =
       (Inr command_without_identifier, [],
        snd (snd (toSafeCommand command_without_identifier [] example_registry)))
   \<and> handle (commandsConverter
        (snd (snd (toSafeCommand command_without_identifier [] example_registry)))) = 0
   \<and> dom (commandsMap (commandsConverter
        (snd (snd (toSafeCommand command_without_identifier [] example_registry))))) = {}"
proof -
  have h: "\<not> truthy (command command_without_identifier)
             \<or> arguments command_without_identifier = None
             \<or> arguments command_without_identifier = Some []"
    by (simp add: command_without_identifier_def truthy_def)
  have a: "trampoline_available example_registry"
    by (simp add: trampoline_available_def example_defs)
  have e: "handle (commandsConverter example_registry) = 0"
    "dom (commandsMap (commandsConverter example_registry)) = {}"
    by (simp_all add: example_defs)
  show ?thesis
    using toSafeCommand_without_identifier [OF h, of "[]" example_registry] a e
    by (simp add: command_without_identifier_def truthy_def prod_eq_iff)
qed

subsection \<open>The trampoline\<close>

lemma commandsMap_get_handle:
  "commandsMap_get s [JSNumber (int h)] = commandsMap (commandsConverter s) h"
  by (simp add: commandsMap_get_def)

lemma executeSafeCommand_stored:
  assumes "commandsMap (commandsConverter t) h = Some cmd"
    and "command cmd = Some c" and "c \<noteq> []" and "arguments cmd = Some as"
  shows "executeSafeCommand (Suc n) R [JSNumber (int h)] t = executeCommand n R c as t"
  using assms by (simp add: executeSafeCommand.simps commandsMap_get_handle)

lemma executeSafeCommand_absent:
  assumes "commandsMap (commandsConverter t) h = None"
  shows "executeSafeCommand n R [JSNumber (int h)] t =
           Some (Rejected (Thrown (JSString ''command NOT FOUND'')), t)"
  using assms by (simp add: executeSafeCommand.simps commandsMap_get_handle)

lemma executeCommand_returns:
  assumes "handlers t c \<noteq> Some (ExecuteSafeCommand, ThisConverter)"
  shows "executeCommand n R c as t \<noteq> None"
proof (cases "handlers t c")
  case None
  then show ?thesis by (simp add: executeCommand.simps split: prod.splits)
next
  case (Some h)
  obtain fn this where h: "h = (fn, this)" by (cases h)
  show ?thesis
  proof (cases fn)
    case (PluginFn f)
    with Some h show ?thesis
      by (simp add: executeCommand.simps executeLocalCommand.simps apply_handler.simps)
  next
    case ExecuteSafeCommand
    with assms Some h have "this \<noteq> ThisConverter" by simp
    with Some h ExecuteSafeCommand show ?thesis
      by (simp add: executeCommand.simps executeLocalCommand.simps apply_handler.simps)
  qed
qed

text \<open>
  Claim C2. When \<^verbatim>\<open>toSafeCommand\<close> has converted a command with an identifier and a
  non-empty argument list, the argument of the result is the handle, and the trampoline
  handler called with that handle, in the state after the conversion or in any later
  state that still has the command stored under the handle, is \<^verbatim>\<open>executeCommand\<close> of
  the original identifier and arguments. It returns unless the original command is
  itself handled by the trampoline.
\<close>

theorem toSafeCommand_round_trip:
  assumes run: "toSafeCommand cmd scope s = (Inr r, scope', s')"
    and c: "command cmd = Some c" "c \<noteq> []"
    and as: "arguments cmd = Some as" "as \<noteq> []"
  shows "arguments r = Some [JSNumber (int (handle (commandsConverter s)))]
     \<and> commandsMap (commandsConverter s') (handle (commandsConverter s)) = Some cmd
     \<and> executeSafeCommand (Suc n) R [JSNumber (int (handle (commandsConverter s)))] s' =
         executeCommand n R c as s'
     \<and> apply_handler (Suc n) R (ExecuteSafeCommand, ThisConverter)
           [JSNumber (int (handle (commandsConverter s)))] s' =
         executeCommand n R c as s'
     \<and> (\<forall>t. commandsMap (commandsConverter t) (handle (commandsConverter s)) = Some cmd \<longrightarrow>
           executeSafeCommand (Suc n) R [JSNumber (int (handle (commandsConverter s)))] t =
             executeCommand n R c as t)
     \<and> (handlers s' c \<noteq> Some (ExecuteSafeCommand, ThisConverter) \<longrightarrow>
           executeSafeCommand (Suc n) R [JSNumber (int (handle (commandsConverter s)))] s' \<noteq> None)"
proof -
  from c have t: "truthy (command cmd)" by (simp add: truthy_def)
  note rw = toSafeCommand_rewritten [OF run t as]
  have stored: "commandsMap (commandsConverter s') (handle (commandsConverter s)) = Some cmd"
    using rw(3) by simp
  have trip: "executeSafeCommand (Suc n) R [JSNumber (int (handle (commandsConverter s)))] t =
      executeCommand n R c as t"
    if "commandsMap (commandsConverter t) (handle (commandsConverter s)) = Some cmd" for t
    using that c as(1) by (rule executeSafeCommand_stored)
  have "arguments r = Some [JSNumber (int (handle (commandsConverter s)))]"
    using rw(1) by simp
  moreover note stored
  moreover have "executeSafeCommand (Suc n) R [JSNumber (int (handle (commandsConverter s)))] s' =
      executeCommand n R c as s'"
    using stored by (rule trip)
  moreover have "apply_handler (Suc n) R (ExecuteSafeCommand, ThisConverter)
        [JSNumber (int (handle (commandsConverter s)))] s' = executeCommand n R c as s'"
    using trip [OF stored] by (simp add: apply_handler.simps)
  moreover have "handlers s' c \<noteq> Some (ExecuteSafeCommand, ThisConverter) \<longrightarrow>
      executeSafeCommand (Suc n) R [JSNumber (int (handle (commandsConverter s)))] s' \<noteq> None"
    using trip [OF stored] executeCommand_returns [of s' c n R as] by simp
  ultimately show ?thesis using trip by blast
qed

theorem toSafeCommand_round_trip_witness:
  "toSafeCommand example_command [] registry_with_x =
       (Inr \<lparr>command = Some ''theia_safe_cmd_0'', title = Some ''Run x'',
             arguments = Some [JSNumber 0]\<rparr>,
        [Disposable_create (Release_handle 0)], converted_registry)
   \<and> command example_command = Some ''x''
   \<and> arguments example_command = Some [JSNumber 1, JSNumber 2]
   \<and> executeSafeCommand 1 example_remote [JSNumber 0] converted_registry =
       Some (Resolved (JSNumber 3), converted_registry)
   \<and> executeCommand 0 example_remote ''x'' [JSNumber 1, JSNumber 2] converted_registry =
       Some (Resolved (JSNumber 3), converted_registry)"
proof -
  have run: "toSafeCommand example_command [] registry_with_x =
       (Inr \<lparr>command = Some ''theia_safe_cmd_0'', title = Some ''Run x'',
             arguments = Some [JSNumber 0]\<rparr>,
        [Disposable_create (Release_handle 0)], converted_registry)"
    by (simp add: example_defs converter_example_defs)
  have c: "command example_command = Some ''x''" "''x'' \<noteq> []"
    and as: "arguments example_command = Some [JSNumber 1, JSNumber 2]"
      "[JSNumber 1, JSNumber 2] \<noteq> []"
    by (simp_all add: example_command_def)
  have h: "handle (commandsConverter registry_with_x) = 0"
    by (simp add: example_defs)
  have x: "handlers converted_registry ''x'' = Some (sum_handler, ThisArg JSUndefined)"
    "argumentProcessors converted_registry = []"
    by (simp_all add: example_defs converter_example_defs)
  have e: "executeCommand 0 example_remote ''x'' [JSNumber 1, JSNumber 2] converted_registry =
       Some (Resolved (JSNumber 3), converted_registry)"
    by (simp add: executeCommand.simps executeLocalCommand.simps apply_handler.simps x
        sum_handler_def processArgument_def)
  show ?thesis
    using toSafeCommand_round_trip [OF run c as, of 0 example_remote] run c as e h
    by simp
qed

lemma unissued_handle_absent:
  assumes inv: "handles_below_counter t" and le: "handle (commandsConverter t) \<le> h"
  shows "commandsMap (commandsConverter t) h = None"
proof (rule ccontr)
  assume "commandsMap (commandsConverter t) h \<noteq> None"
  then have "h \<in> dom (commandsMap (commandsConverter t))" by (simp add: dom_def)
  with inv have "h < handle (commandsConverter t)"
    unfolding handles_below_counter_def by blast
  with le show False by simp
qed

text \<open>
  Claim C3. After a conversion that gave out a handle, disposing a scope that holds what
  the conversion pushed, in any state, leaves no command under the handle, and the
  trampoline called with the handle returns the rejection \<^verbatim>\<open>command NOT FOUND\<close>. The
  same rejection answers a handle at or above the counter, which was never given out.
\<close>

theorem released_or_unissued_handle_rejected:
  "(toSafeCommand cmd scope s = (Inr r, scope', s') \<and> truthy (command cmd)
      \<and> arguments cmd = Some as \<and> as \<noteq> [] \<and> set scope' \<subseteq> set later_scope \<longrightarrow>
        commandsMap (commandsConverter s') (handle (commandsConverter s)) = Some cmd
        \<and> commandsMap (commandsConverter (dispose_collection later_scope t))
            (handle (commandsConverter s)) = None
        \<and> executeSafeCommand n R [JSNumber (int (handle (commandsConverter s)))]
            (dispose_collection later_scope t) =
          Some (Rejected (Thrown (JSString ''command NOT FOUND'')),
                dispose_collection later_scope t))
   \<and> (handles_below_counter t \<and> handle (commandsConverter t) \<le> h \<longrightarrow>
        executeSafeCommand n R [JSNumber (int h)] t =
          Some (Rejected (Thrown (JSString ''command NOT FOUND'')), t))"
proof -
  have released:
    "commandsMap (commandsConverter s') (handle (commandsConverter s)) = Some cmd
        \<and> commandsMap (commandsConverter (dispose_collection later_scope t))
            (handle (commandsConverter s)) = None
        \<and> executeSafeCommand n R [JSNumber (int (handle (commandsConverter s)))]
            (dispose_collection later_scope t) =
          Some (Rejected (Thrown (JSString ''command NOT FOUND'')),
                dispose_collection later_scope t)"
    if run: "toSafeCommand cmd scope s = (Inr r, scope', s')"
      and t: "truthy (command cmd)" and as: "arguments cmd = Some as" "as \<noteq> []"
      and later: "set scope' \<subseteq> set later_scope"
  proof -
    note rw = toSafeCommand_rewritten [OF run t as]
    from rw(2) later
    have "Disposable_create (Release_handle (handle (commandsConverter s))) \<in> set later_scope"
      by (auto simp: push_def)
    then have "\<exists>d \<in> set later_scope.
        Release_handle (handle (commandsConverter s)) \<in> set (releases d)"
      by (rule bexI [rotated]) simp
    then have gone: "commandsMap (commandsConverter (dispose_collection later_scope t))
        (handle (commandsConverter s)) = None"
      by (simp add: commandsMap_dispose_collection)
    show ?thesis
      using rw(3) gone executeSafeCommand_absent [OF gone] by simp
  qed
  have unissued: "executeSafeCommand n R [JSNumber (int h)] t =
      Some (Rejected (Thrown (JSString ''command NOT FOUND'')), t)"
    if "handles_below_counter t" and "handle (commandsConverter t) \<le> h"
  proof -
    from that have "commandsMap (commandsConverter t) h = None"
      by (rule unissued_handle_absent)
    then show ?thesis by (rule executeSafeCommand_absent)
  qed
  from released unissued show ?thesis by blast
qed

theorem released_handle_witness:
  "toSafeCommand example_command [] registry_with_x =
       (Inr \<lparr>command = Some ''theia_safe_cmd_0'', title = Some ''Run x'',
             arguments = Some [JSNumber 0]\<rparr>,
        [Disposable_create (Release_handle 0)], converted_registry)
   \<and> executeSafeCommand 1 example_remote [JSNumber 0]
        (dispose_collection [Disposable_create (Release_handle 0)] converted_registry) =
       Some (Rejected (Thrown (JSString ''command NOT FOUND'')),
             dispose_collection [Disposable_create (Release_handle 0)] converted_registry)
   \<and> handles_below_counter converted_registry
   \<and> handle (commandsConverter converted_registry) = 1
   \<and> executeSafeCommand 1 example_remote [JSNumber 5] converted_registry =
       Some (Rejected (Thrown (JSString ''command NOT FOUND'')), converted_registry)"
proof -
  have run: "toSafeCommand example_command [] registry_with_x =
       (Inr \<lparr>command = Some ''theia_safe_cmd_0'', title = Some ''Run x'',
             arguments = Some [JSNumber 0]\<rparr>,
        [Disposable_create (Release_handle 0)], converted_registry)"
    by (simp add: example_defs converter_example_defs)
  have c: "truthy (command example_command)"
    and as: "arguments example_command = Some [JSNumber 1, JSNumber 2]"
      "[JSNumber 1, JSNumber 2] \<noteq> []"
    by (simp_all add: example_command_def truthy_def)
  have h: "handle (commandsConverter registry_with_x) = 0"
    by (simp add: example_defs)
  have i: "handles_below_counter converted_registry"
    "handle (commandsConverter converted_registry) = 1"
    by (simp_all add: handles_below_counter_def example_defs converter_example_defs)
  show ?thesis
    using released_or_unissued_handle_rejected
      [where cmd = example_command and scope = "[]" and s = registry_with_x
         and scope' = "[Disposable_create (Release_handle 0)]" and s' = converted_registry
         and as = "[JSNumber 1, JSNumber 2]"
         and later_scope = "[Disposable_create (Release_handle 0)]"
         and t = converted_registry and n = 1 and R = example_remote and h = 5]
      run c as h i
    by simp
qed

subsection \<open>Handles\<close>

lemma toSafeCommand_keeps_live:
  assumes inv: "handles_below_counter s"
    and run: "toSafeCommand cmd scope s = (res, scope', s')"
  shows "handles_below_counter s'"
    and "handle (commandsConverter s) \<le> handle (commandsConverter s')"
    and "\<forall>k \<in> dom (commandsMap (commandsConverter s)).
           commandsMap (commandsConverter s') k = commandsMap (commandsConverter s) k"
    and "dom (commandsMap (commandsConverter s')) \<subseteq>
           insert (handle (commandsConverter s)) (dom (commandsMap (commandsConverter s)))"
    and "scope' = scope \<or>
         scope' = push scope (Disposable_create (Release_handle (handle (commandsConverter s))))"
  using assms
  by (auto simp: toSafeCommand_def registerCommand_def registerHandler_def Let_def
      handles_below_counter_def dom_def split: if_splits)
    (blast intro: less_SucI)+

lemma fresh_handle_not_live:
  "handles_below_counter s \<Longrightarrow>
     handle (commandsConverter s) \<notin> dom (commandsMap (commandsConverter s))"
  by (auto simp: handles_below_counter_def)

lemma registration_keeps_converter:
  "commandsConverter (snd (registerHandler i h thisArg s)) = commandsConverter s"
  "commandsConverter (snd (registerCommand c handler thisArg s)) = commandsConverter s"
  "commandsConverter (registerArgumentProcessor p s) = commandsConverter s"
  by (auto simp: registerCommand_def registerHandler_def registerArgumentProcessor_def
      Let_def split: option.splits)

lemma ext_executeCommand_keeps_converter:
  "ext_executeCommand n R i args s = Some (p, s') \<Longrightarrow>
     commandsConverter s' = commandsConverter s"
  using exec_keeps_tables(2) [of n R i args s p s']
  by (auto simp: ext_executeCommand_def split: if_splits)

lemma dispose_keeps_invariant:
  "handles_below_counter s \<Longrightarrow> handles_below_counter (dispose d s)"
  by (auto simp: handles_below_counter_def dom_def commandsMap_dispose handle_dispose
      split: if_splits)

text \<open>
  Claim C9. The invariant holds of a new registry and is kept by conversion and by
  disposal. Under it, the handle the next conversion takes is not the key of any stored
  command; the conversion keeps every stored command, adds at most that one key, and
  pushes at most the release of that handle onto its scope. Registration, registration
  of a processor and the three ways of executing leave the converter as it is. Disposing
  removes exactly the handles whose release the disposable holds, and never moves the
  counter.
\<close>

theorem handles_fresh_and_released_by_disposal_only:
  "handles_below_counter (new_CommandRegistryImpl now)
   \<and> (handles_below_counter s \<and> toSafeCommand cmd scope s = (res, scope', s') \<longrightarrow>
        handle (commandsConverter s) \<notin> dom (commandsMap (commandsConverter s))
        \<and> handles_below_counter s'
        \<and> handle (commandsConverter s) \<le> handle (commandsConverter s')
        \<and> (\<forall>k \<in> dom (commandsMap (commandsConverter s)).
              commandsMap (commandsConverter s') k = commandsMap (commandsConverter s) k)
        \<and> dom (commandsMap (commandsConverter s')) \<subseteq>
              insert (handle (commandsConverter s)) (dom (commandsMap (commandsConverter s)))
        \<and> (scope' = scope \<or>
            scope' = push scope
              (Disposable_create (Release_handle (handle (commandsConverter s))))))
   \<and> commandsConverter (snd (registerCommand c handler thisArg s)) = commandsConverter s
   \<and> commandsConverter (snd (registerHandler i h thisArg s)) = commandsConverter s
   \<and> commandsConverter (registerArgumentProcessor p s) = commandsConverter s
   \<and> (executeCommand n R i args s = Some (out, s1) \<longrightarrow>
        commandsConverter s1 = commandsConverter s)
   \<and> (ext_executeCommand n R i args s = Some (out, s1) \<longrightarrow>
        commandsConverter s1 = commandsConverter s)
   \<and> (executeSafeCommand n R args s = Some (out, s1) \<longrightarrow>
        commandsConverter s1 = commandsConverter s)
   \<and> commandsMap (commandsConverter (dispose d s)) k =
        (if Release_handle k \<in> set (releases d) then None
         else commandsMap (commandsConverter s) k)
   \<and> handle (commandsConverter (dispose d s)) = handle (commandsConverter s)
   \<and> (handles_below_counter s \<longrightarrow> handles_below_counter (dispose d s))"
proof -
  have init: "handles_below_counter (new_CommandRegistryImpl now)"
    by (simp add: handles_below_counter_def new_CommandRegistryImpl_def
        new_CommandsConverter_def)
  have conv: "handle (commandsConverter s) \<notin> dom (commandsMap (commandsConverter s))
        \<and> handles_below_counter s'
        \<and> handle (commandsConverter s) \<le> handle (commandsConverter s')
        \<and> (\<forall>k \<in> dom (commandsMap (commandsConverter s)).
              commandsMap (commandsConverter s') k = commandsMap (commandsConverter s) k)
        \<and> dom (commandsMap (commandsConverter s')) \<subseteq>
              insert (handle (commandsConverter s)) (dom (commandsMap (commandsConverter s)))
        \<and> (scope' = scope \<or>
            scope' = push scope
              (Disposable_create (Release_handle (handle (commandsConverter s)))))"
    if "handles_below_counter s" and "toSafeCommand cmd scope s = (res, scope', s')"
    using toSafeCommand_keeps_live [OF that] fresh_handle_not_live [OF that(1)]
    by blast
  have e1: "commandsConverter s1 = commandsConverter s"
    if "executeCommand n R i args s = Some (out, s1)"
    using exec_keeps_tables(1) [OF that] by simp
  have e2: "commandsConverter s1 = commandsConverter s"
    if "ext_executeCommand n R i args s = Some (out, s1)"
    using that by (rule ext_executeCommand_keeps_converter)
  have e3: "commandsConverter s1 = commandsConverter s"
    if "executeSafeCommand n R args s = Some (out, s1)"
    using exec_keeps_tables(4) [OF that] by simp
  note r = registration_keeps_converter(1) [of i h thisArg s]
    registration_keeps_converter(2) [of c handler thisArg s]
    registration_keeps_converter(3) [of p s]
  note d = commandsMap_dispose [of d s k] handle_dispose [of d s]
    dispose_keeps_invariant [of s d]
  from init conv e1 e2 e3 r d show ?thesis by blast
qed

theorem handles_fresh_witness:
  "handles_below_counter converted_registry
   \<and> toSafeCommand example_command [Disposable_create (Release_handle 0)] converted_registry =
       (Inr \<lparr>command = Some ''theia_safe_cmd_0'', title = Some ''Run x'',
             arguments = Some [JSNumber 1]\<rparr>,
        [Disposable_create (Release_handle 0), Disposable_create (Release_handle 1)],
        snd (snd (toSafeCommand example_command [Disposable_create (Release_handle 0)]
                    converted_registry)))
   \<and> dom (commandsMap (commandsConverter converted_registry)) = {0}
   \<and> handle (commandsConverter converted_registry) = 1
   \<and> handles_below_counter
        (snd (snd (toSafeCommand example_command [Disposable_create (Release_handle 0)]
                    converted_registry)))"
proof -
  have inv: "handles_below_counter converted_registry"
    and d: "dom (commandsMap (commandsConverter converted_registry)) = {0}"
    and h: "handle (commandsConverter converted_registry) = 1"
    by (simp_all add: handles_below_counter_def example_defs converter_example_defs)
  have run: "toSafeCommand example_command [Disposable_create (Release_handle 0)]
        converted_registry =
       (Inr \<lparr>command = Some ''theia_safe_cmd_0'', title = Some ''Run x'',
             arguments = Some [JSNumber 1]\<rparr>,
        [Disposable_create (Release_handle 0), Disposable_create (Release_handle 1)],
        snd (snd (toSafeCommand example_command [Disposable_create (Release_handle 0)]
                    converted_registry)))"
    by (simp add: example_defs converter_example_defs)
  show ?thesis
    using handles_fresh_and_released_by_disposal_only
      [where s = converted_registry and cmd = example_command
         and scope = "[Disposable_create (Release_handle 0)]"
         and s' = "snd (snd (toSafeCommand example_command
                      [Disposable_create (Release_handle 0)] converted_registry))"]
      inv d h run
    by blast
qed

end
